theory Spec2Isabelle
  imports Main
begin

section \<open>Dense matrices and the containers of the optimisation layer\<close>

text \<open>
  The scalar type of the source is \<open>double\<close>. No property below depends on the laws of
  its arithmetic, so the scalar is a type parameter that only has to offer the operations the
  code uses (zero, addition, negation, multiplication and numerals).

  A gtsam \<open>Matrix\<close> is an Eigen matrix whose two dimensions are both dynamic: it carries its
  row and column counts at run time together with its coefficients.
\<close>

type_synonym Key = nat

type_synonym 'a Vector = "'a list"

record 'a Matrix =
  rows :: nat
  cols :: nat
  coeffs :: "'a list"

text \<open>
  Every way in which \<open>multipliedHessian\<close> can fail to return: the lookups \<open>Values::at\<close>
  and \<open>VectorValues::at\<close> throw on a missing key, the dimension check throws
  \<open>std::runtime_error\<close>, \<open>std::vector::operator[]\<close> has no defined result outside the
  vector, and Eigen's \<open>+=\<close> has none on operands of different shapes.
\<close>

datatype error =
  ValuesKeyDoesNotExist Key
  | OutOfRange Key
  | RuntimeError string
  | VectorIndexOutOfBounds
  | EigenSizeMismatch

definition dim :: "'a Vector \<Rightarrow> nat" where
  "dim v = length v"

definition zeros :: "nat \<Rightarrow> nat \<Rightarrow> ('a::zero) Matrix" where
  "zeros m n = \<lparr>rows = m, cols = n, coeffs = replicate (m * n) 0\<rparr>"

definition zero :: "nat \<Rightarrow> ('a::zero) Vector" where
  "zero n = replicate n 0"

text \<open>\<open>G[i]\<close> on a \<open>std::vector\<close>.\<close>

definition vector_at :: "'b list \<Rightarrow> nat \<Rightarrow> error + 'b" where
  "vector_at v i = (if i < length v then Inr (v ! i) else Inl VectorIndexOutOfBounds)"

text \<open>
  \<open>Values\<close> and \<open>VectorValues\<close> are declared outside the file studied here. Both are
  containers keyed by \<open>Key\<close>, and their member \<open>at\<close> throws when the key is absent.
\<close>

definition values_at :: "(Key \<rightharpoonup> 'x) \<Rightarrow> Key \<Rightarrow> error + 'x" where
  "values_at x j = (case x j of None \<Rightarrow> Inl (ValuesKeyDoesNotExist j) | Some v \<Rightarrow> Inr v)"

definition duals_at :: "(Key \<rightharpoonup> 'a Vector) \<Rightarrow> Key \<Rightarrow> error + 'a Vector" where
  "duals_at duals j = (case duals j of None \<Rightarrow> Inl (OutOfRange j) | Some v \<Rightarrow> Inr v)"

text \<open>The scalar multiple \<open>s * M\<close> and the in-place sum \<open>A += B\<close> of Eigen.\<close>

definition scale :: "('a::times) \<Rightarrow> 'a Matrix \<Rightarrow> 'a Matrix" where
  "scale s M = M\<lparr>coeffs := map (\<lambda>c. s * c) (coeffs M)\<rparr>"

definition plus_assign :: "('a::plus) Matrix \<Rightarrow> 'a Matrix \<Rightarrow> error + 'a Matrix" where
  "plus_assign A B =
     (if rows A = rows B \<and> cols A = cols B
      then Inr (A\<lparr>coeffs := map2 (\<lambda>a b. a + b) (coeffs A) (coeffs B)\<rparr>)
      else Inl EigenSizeMismatch)"

text \<open>One statement \<open>lGsum += -lambda[i] * G[i]\<close> of the accumulation loops.\<close>

definition accumulate :: "('a::{plus,uminus,times}) Matrix \<Rightarrow> 'a Vector \<Rightarrow> 'a Matrix list \<Rightarrow> nat
    \<Rightarrow> error + 'a Matrix" where
  "accumulate lGsum lambda G i =
     (case vector_at lambda i of
        Inl e \<Rightarrow> Inl e
      | Inr l \<Rightarrow>
          (case vector_at G i of
             Inl e \<Rightarrow> Inl e
           | Inr Gi \<Rightarrow> plus_assign lGsum (scale (- l) Gi)))"

text \<open>Sequencing of two steps of which the first may throw.\<close>

definition and_then :: "error + 'b \<Rightarrow> ('b \<Rightarrow> error + 'c) \<Rightarrow> error + 'c" where
  "and_then r k = (case r of Inl e \<Rightarrow> Inl e | Inr v \<Rightarrow> k v)"

text \<open>The loop \<open>for (int i = i0; i < n; ++i) body\<close>, leaving at the first failure.\<close>

function for_loop :: "nat \<Rightarrow> nat \<Rightarrow> (nat \<Rightarrow> 's \<Rightarrow> error + 's) \<Rightarrow> 's \<Rightarrow> error + 's" where
  "for_loop i n body s =
     (if i < n
      then (case body i s of Inl e \<Rightarrow> Inl e | Inr s' \<Rightarrow> for_loop (Suc i) n body s')
      else Inr s)"
  by pat_completeness auto
termination
  by (relation "measure (\<lambda>(i, n, body, s). n - i)") auto

declare for_loop.simps [simp del]

section \<open>The reverse-mode dispatch layer\<close>

subsection \<open>Blocks with compile-time dimensions\<close>

text \<open>
  \<open>Eigen::Matrix<double, Rows, Cols>\<close> fixes each dimension in its type, or leaves it to
  run time with the marker \<open>Eigen::Dynamic\<close>, which is the integer \<open>-1\<close>. A block is
  modelled with the two template arguments of its type beside its run-time content, so that
  overload resolution, which sees only the type, and the computation, which sees the
  content, can be told apart.
\<close>

definition MaxVirtualStaticRows :: int where
  "MaxVirtualStaticRows = 4"

definition Dynamic :: int where
  "Dynamic = - 1"

record 'a EigenMatrix =
  RowsAtCompileTime :: int
  ColsAtCompileTime :: int
  mat :: "'a Matrix"

text \<open>
  The primary template (taken for \<open>true\<close>) returns a matrix with dynamic rows and the
  columns of its argument, built from the argument; the specialisation for \<open>false\<close> returns
  the reference it was given.
\<close>

definition ConvertToDynamicRowsIf :: "bool \<Rightarrow> 'a EigenMatrix \<Rightarrow> 'a EigenMatrix" where
  "ConvertToDynamicRowsIf ConvertToDynamicRows x =
     (if ConvertToDynamicRows then x\<lparr>RowsAtCompileTime := Dynamic\<rparr> else x)"

subsection \<open>The interface and its implementor\<close>

text \<open>
  A virtual \<open>_reverseAD\<close> is identified by the type of the block it takes: the pair of the
  block's compile-time rows and columns. \<open>ReverseADInterface<n, Cols>\<close> is the list of the
  entry points it declares, all of them pure virtual; level \<open>0\<close> declares the entry point
  for dynamic rows and the one for gtsam's \<open>Matrix\<close>, level \<open>n\<close> inherits level \<open>n - 1\<close>
  and declares the entry point for \<open>n\<close> rows.

  Modelled from the spec: the type \<open>Matrix\<close> is declared in \<open>gtsam/base/Matrix.h\<close>,
  which is not part of the file. The specification calls the entry point that takes it
  fully dynamic, so its rows and its columns are both \<open>Dynamic\<close>.
\<close>

type_synonym entry = "int \<times> int"

fun ReverseADInterface :: "nat \<Rightarrow> int \<Rightarrow> entry list" where
  "ReverseADInterface 0 Cols = [(Dynamic, Cols), (Dynamic, Dynamic)]"
| "ReverseADInterface (Suc n) Cols = ReverseADInterface n Cols @ [(int (Suc n), Cols)]"

text \<open>
  \<open>ReverseADImplementor<Derived, n, Cols>\<close> overrides the entry points level by level.
  Each body casts \<open>this\<close> to the derived node and calls its \<open>reverseAD\<close> with the block
  and the Jacobian map it received. The derived routine is \<open>const\<close>: it reads the node
  (of type \<open>'d\<close>) and returns the Jacobian map (of type \<open>'j\<close>) it was handed, updated.
\<close>

type_synonym ('d, 'a, 'j) reverseAD_body = "'d \<Rightarrow> 'a EigenMatrix \<Rightarrow> 'j \<Rightarrow> 'j"

fun ReverseADImplementor :: "('d, 'a, 'j) reverseAD_body \<Rightarrow> nat \<Rightarrow> int
    \<Rightarrow> (entry \<times> ('d, 'a, 'j) reverseAD_body) list" where
  "ReverseADImplementor reverseAD 0 Cols =
     [((Dynamic, Cols), \<lambda>this dFdT jacobians. reverseAD this dFdT jacobians),
      ((Dynamic, Dynamic), \<lambda>this dFdT jacobians. reverseAD this dFdT jacobians)]"
| "ReverseADImplementor reverseAD (Suc n) Cols =
     ReverseADImplementor reverseAD n Cols
     @ [((int (Suc n), Cols), \<lambda>this dFdT jacobians. reverseAD this dFdT jacobians)]"

subsection \<open>Call records\<close>

text \<open>
  The non-virtual members a derived node type supplies, and the class \<open>CallRecord<Cols>\<close>
  as the table of its virtual members: \<open>_print\<close>, \<open>_startReverseAD\<close> and the
  \<open>_reverseAD\<close> overloads. A member without a body is pure virtual.
\<close>

record ('d, 'a, 'j, 'o) Derived =
  D_print :: "'d \<Rightarrow> string \<Rightarrow> 'o"
  D_startReverseAD :: "'d \<Rightarrow> 'j \<Rightarrow> 'j"
  D_reverseAD :: "('d, 'a, 'j) reverseAD_body"

record ('d, 'a, 'j, 'o) CallRecord =
  Cols :: int
  v_print :: "('d \<Rightarrow> string \<Rightarrow> 'o) option"
  v_startReverseAD :: "('d \<Rightarrow> 'j \<Rightarrow> 'j) option"
  v_reverseAD :: "(entry \<times> ('d, 'a, 'j) reverseAD_body) list"

definition CallRecord_interface :: "int \<Rightarrow> ('d, 'a, 'j, 'o) CallRecord" where
  "CallRecord_interface c = \<lparr>Cols = c, v_print = None, v_startReverseAD = None, v_reverseAD = []\<rparr>"

definition CallRecordImplementor :: "('d, 'a, 'j, 'o) Derived \<Rightarrow> int \<Rightarrow> ('d, 'a, 'j, 'o) CallRecord" where
  "CallRecordImplementor derived c =
     \<lparr>Cols = c,
      v_print = Some (\<lambda>this indent. D_print derived this indent),
      v_startReverseAD = Some (\<lambda>this jacobians. D_startReverseAD derived this jacobians),
      v_reverseAD = ReverseADImplementor (D_reverseAD derived) (nat MaxVirtualStaticRows) c\<rparr>"

text \<open>
  A class can be instantiated only if every pure virtual member it declares or inherits has
  a final overrider.
\<close>

definition instantiable :: "('d, 'a, 'j, 'o) CallRecord \<Rightarrow> bool" where
  "instantiable r =
     (v_print r \<noteq> None \<and> v_startReverseAD r \<noteq> None
      \<and> list_all (\<lambda>e. map_of (v_reverseAD r) e \<noteq> None)
           (ReverseADInterface (nat MaxVirtualStaticRows) (Cols r)))"

text \<open>
  The call \<open>_reverseAD(y, jacobians)\<close> in \<open>CallRecord::reverseAD\<close> is resolved on the type
  of \<open>y\<close> among the declared entry points. An entry point whose parameter type is the type
  of \<open>y\<close> is an exact match; the call is well-formed when exactly one entry point matches.
\<close>

definition overload_resolution :: "entry list \<Rightarrow> 'a EigenMatrix \<Rightarrow> entry list" where
  "overload_resolution entries y =
     filter (\<lambda>e. e = (RowsAtCompileTime y, ColsAtCompileTime y)) entries"



definition CallRecord_reverseAD :: "('d, 'a, 'j, 'o) CallRecord \<Rightarrow> 'd \<Rightarrow> 'a EigenMatrix \<Rightarrow> 'j
    \<Rightarrow> 'j option" where
  "CallRecord_reverseAD r this dFdT jacobians =
     (if ColsAtCompileTime dFdT \<noteq> Cols r then None
      else
        let y = ConvertToDynamicRowsIf (RowsAtCompileTime dFdT > MaxVirtualStaticRows) dFdT in
        case overload_resolution (ReverseADInterface (nat MaxVirtualStaticRows) (Cols r)) y of
          [e] \<Rightarrow> (case map_of (v_reverseAD r) e of
                    None \<Rightarrow> None
                  | Some body \<Rightarrow> Some (body this y jacobians))
        | _ \<Rightarrow> None)"

section \<open>Hessian factors\<close>

text \<open>
  The class \<open>HessianFactor\<close> is declared in \<open>gtsam/linear/HessianFactor.h\<close>, outside
  the file studied here. A factor is represented by the arguments its constructor was called
  with: the keys in the order given, the upper triangle of blocks row by row, the linear
  terms and the constant term. The three functions below are the constructors for one, two
  and three keys.
\<close>

record 'a HessianFactor =
  hf_keys :: "Key list"
  hf_G :: "'a Matrix list"
  hf_g :: "'a Vector list"
  hf_f :: 'a

definition HessianFactor1 :: "Key \<Rightarrow> 'a Matrix \<Rightarrow> 'a Vector \<Rightarrow> 'a \<Rightarrow> 'a HessianFactor" where
  "HessianFactor1 j G g f = \<lparr>hf_keys = [j], hf_G = [G], hf_g = [g], hf_f = f\<rparr>"

definition HessianFactor2 :: "Key \<Rightarrow> Key \<Rightarrow> 'a Matrix \<Rightarrow> 'a Matrix \<Rightarrow> 'a Vector \<Rightarrow> 'a Matrix
    \<Rightarrow> 'a Vector \<Rightarrow> 'a \<Rightarrow> 'a HessianFactor" where
  "HessianFactor2 j1 j2 G11 G12 g1 G22 g2 f =
     \<lparr>hf_keys = [j1, j2], hf_G = [G11, G12, G22], hf_g = [g1, g2], hf_f = f\<rparr>"

definition HessianFactor3 :: "Key \<Rightarrow> Key \<Rightarrow> Key \<Rightarrow> 'a Matrix \<Rightarrow> 'a Matrix \<Rightarrow> 'a Matrix \<Rightarrow> 'a Vector
    \<Rightarrow> 'a Matrix \<Rightarrow> 'a Matrix \<Rightarrow> 'a Vector \<Rightarrow> 'a Matrix \<Rightarrow> 'a Vector \<Rightarrow> 'a \<Rightarrow> 'a HessianFactor" where
  "HessianFactor3 j1 j2 j3 G11 G12 G13 g1 G22 G23 g2 G33 g3 f =
     \<lparr>hf_keys = [j1, j2, j3], hf_G = [G11, G12, G13, G22, G23, G33],
      hf_g = [g1, g2, g3], hf_f = f\<rparr>"

section \<open>Nonlinear equality constraints\<close>

text \<open>
  The base class holds the key of the dual variable (\<open>dualKey_\<close>) and a flag
  (\<open>active_\<close>), here the fields \<open>m_dualKey\<close> and \<open>m_active\<close>. Its members
  \<open>isActive_\<close> and \<open>setActive_\<close> are \<open>isActive_impl\<close> and \<open>setActive_impl\<close>.
\<close>

record NonlinearEqualityConstraint =
  m_dualKey :: Key
  m_active :: bool

definition isActive_impl :: "'z NonlinearEqualityConstraint_scheme \<Rightarrow> bool" where
  "isActive_impl this = True"

definition setActive_impl :: "bool \<Rightarrow> 'z NonlinearEqualityConstraint_scheme
    \<Rightarrow> 'z NonlinearEqualityConstraint_scheme" where
  "setActive_impl a this = this\<lparr>m_active := a\<rparr>"

definition dualKey :: "'z NonlinearEqualityConstraint_scheme \<Rightarrow> Key" where
  "dualKey this = m_dualKey this"

definition dimension_error :: string where
  "dimension_error =
     ''Error in evaluateHessians: the number of returned Gij matrices must be the same as the constraint dimension!''"

text \<open>
  The three constraint classes add to the base the keys of their variables (held by the
  \<open>NoiseModelFactor\<close> base), the dimensions of the variable types, and two virtual members:
  \<open>active\<close>, inherited from \<open>NonlinearFactor\<close>, and \<open>evaluateHessians\<close>, which
  fills one list of blocks per pair of variables. Both can be overridden by a concrete
  constraint, so they are fields of the object.
\<close>

record ('x, 'a) NonlinearEqualityConstraint1 = NonlinearEqualityConstraint +
  E1_key :: Key
  E1_X1Dim :: nat
  E1_active :: "(Key \<rightharpoonup> 'x) \<Rightarrow> bool"
  E1_evaluateHessians :: "'x \<Rightarrow> 'a Matrix list"

record ('x, 'a) NonlinearEqualityConstraint2 = NonlinearEqualityConstraint +
  E2_key1 :: Key
  E2_key2 :: Key
  E2_X1Dim :: nat
  E2_X2Dim :: nat
  E2_active :: "(Key \<rightharpoonup> 'x) \<Rightarrow> bool"
  E2_evaluateHessians :: "'x \<Rightarrow> 'x \<Rightarrow> 'a Matrix list \<times> 'a Matrix list \<times> 'a Matrix list"

record ('x, 'a) NonlinearEqualityConstraint3 = NonlinearEqualityConstraint +
  E3_key1 :: Key
  E3_key2 :: Key
  E3_key3 :: Key
  E3_X1Dim :: nat
  E3_X2Dim :: nat
  E3_X3Dim :: nat
  E3_active :: "(Key \<rightharpoonup> 'x) \<Rightarrow> bool"
  E3_evaluateHessians :: "'x \<Rightarrow> 'x \<Rightarrow> 'x \<Rightarrow> 'a Matrix list \<times> 'a Matrix list \<times> 'a Matrix list
      \<times> 'a Matrix list \<times> 'a Matrix list \<times> 'a Matrix list"

subsection \<open>One variable\<close>

definition loop_body1 :: "('a::{plus,uminus,times}) Vector \<Rightarrow> 'a Matrix list \<Rightarrow> nat \<Rightarrow> 'a Matrix
    \<Rightarrow> error + 'a Matrix" where
  "loop_body1 lambda G11 i lG11sum = accumulate lG11sum lambda G11 i"

definition multipliedHessian1 :: "('x, 'a::{zero,uminus,times,numeral}) NonlinearEqualityConstraint1
    \<Rightarrow> (Key \<rightharpoonup> 'x) \<Rightarrow> (Key \<rightharpoonup> 'a Vector) \<Rightarrow> error + 'a HessianFactor option" where
  "multipliedHessian1 this x duals =
     (if \<not> E1_active this x then Inr None
      else
        and_then (values_at x (E1_key this)) (\<lambda>x1.
        and_then (duals_at duals (dualKey this)) (\<lambda>lambda.
        let G11 = E1_evaluateHessians this x1 in
        if dim lambda \<noteq> length G11 then Inl (RuntimeError dimension_error)
        else
          and_then (vector_at G11 0) (\<lambda>G11_0.
          and_then (for_loop 0 (length lambda) (loop_body1 lambda G11)
                      (zeros (rows G11_0) (cols G11_0))) (\<lambda>lG11sum.
          Inr (Some (HessianFactor1 (E1_key this) lG11sum (zero (E1_X1Dim this)) 100)))))))"

subsection \<open>Two variables\<close>

definition loop_body2 :: "('a::{plus,uminus,times}) Vector \<Rightarrow> 'a Matrix list \<Rightarrow> 'a Matrix list
    \<Rightarrow> 'a Matrix list \<Rightarrow> nat \<Rightarrow> 'a Matrix \<times> 'a Matrix \<times> 'a Matrix
    \<Rightarrow> error + 'a Matrix \<times> 'a Matrix \<times> 'a Matrix" where
  "loop_body2 lambda G11 G12 G22 i s =
     (case s of (lG11sum, lG12sum, lG22sum) \<Rightarrow>
        and_then (accumulate lG11sum lambda G11 i) (\<lambda>lG11sum.
        and_then (accumulate lG12sum lambda G12 i) (\<lambda>lG12sum.
        and_then (accumulate lG22sum lambda G22 i) (\<lambda>lG22sum.
        Inr (lG11sum, lG12sum, lG22sum)))))"

definition multipliedHessian2 :: "('x, 'a::{zero,uminus,times,numeral}) NonlinearEqualityConstraint2
    \<Rightarrow> (Key \<rightharpoonup> 'x) \<Rightarrow> (Key \<rightharpoonup> 'a Vector) \<Rightarrow> error + 'a HessianFactor option" where
  "multipliedHessian2 this x duals =
     (if \<not> E2_active this x then Inr None
      else
        and_then (values_at x (E2_key1 this)) (\<lambda>x1.
        and_then (values_at x (E2_key2 this)) (\<lambda>x2.
        and_then (duals_at duals (dualKey this)) (\<lambda>lambda.
        case E2_evaluateHessians this x1 x2 of (G11, G12, G22) \<Rightarrow>
        if dim lambda \<noteq> length G11 \<or> dim lambda \<noteq> length G12 \<or> dim lambda \<noteq> length G22
        then Inl (RuntimeError dimension_error)
        else
          and_then (vector_at G11 0) (\<lambda>G11_0.
          and_then (vector_at G12 0) (\<lambda>G12_0.
          and_then (vector_at G22 0) (\<lambda>G22_0.
          and_then (for_loop 0 (length lambda) (loop_body2 lambda G11 G12 G22)
                      (zeros (rows G11_0) (cols G11_0), zeros (rows G12_0) (cols G12_0),
                       zeros (rows G22_0) (cols G22_0))) (\<lambda>s.
          case s of (lG11sum, lG12sum, lG22sum) \<Rightarrow>
            Inr (Some (HessianFactor2 (E2_key1 this) (E2_key2 this) lG11sum lG12sum
                         (zero (E2_X1Dim this)) lG22sum (zero (E2_X2Dim this)) 0))))))))))"

subsection \<open>Three variables\<close>

definition loop_body3 :: "('a::{plus,uminus,times}) Vector \<Rightarrow> 'a Matrix list \<Rightarrow> 'a Matrix list
    \<Rightarrow> 'a Matrix list \<Rightarrow> 'a Matrix list \<Rightarrow> 'a Matrix list \<Rightarrow> 'a Matrix list \<Rightarrow> nat
    \<Rightarrow> 'a Matrix \<times> 'a Matrix \<times> 'a Matrix \<times> 'a Matrix \<times> 'a Matrix \<times> 'a Matrix
    \<Rightarrow> error + 'a Matrix \<times> 'a Matrix \<times> 'a Matrix \<times> 'a Matrix \<times> 'a Matrix \<times> 'a Matrix" where
  "loop_body3 lambda G11 G12 G13 G22 G23 G33 i s =
     (case s of (lG11sum, lG12sum, lG13sum, lG22sum, lG23sum, lG33sum) \<Rightarrow>
        and_then (accumulate lG11sum lambda G11 i) (\<lambda>lG11sum.
        and_then (accumulate lG12sum lambda G12 i) (\<lambda>lG12sum.
        and_then (accumulate lG13sum lambda G13 i) (\<lambda>lG13sum.
        and_then (accumulate lG22sum lambda G22 i) (\<lambda>lG22sum.
        and_then (accumulate lG23sum lambda G23 i) (\<lambda>lG23sum.
        and_then (accumulate lG33sum lambda G33 i) (\<lambda>lG33sum.
        Inr (lG11sum, lG12sum, lG13sum, lG22sum, lG23sum, lG33sum))))))))"

text \<open>
  The factor is built from \<open>Base::key2()\<close>, \<open>Base::key2()\<close>, \<open>Base::key3()\<close>, as the
  source has it.
\<close>

definition multipliedHessian3 :: "('x, 'a::{zero,uminus,times,numeral}) NonlinearEqualityConstraint3
    \<Rightarrow> (Key \<rightharpoonup> 'x) \<Rightarrow> (Key \<rightharpoonup> 'a Vector) \<Rightarrow> error + 'a HessianFactor option" where
  "multipliedHessian3 this x duals =
     (if \<not> E3_active this x then Inr None
      else
        and_then (values_at x (E3_key1 this)) (\<lambda>x1.
        and_then (values_at x (E3_key2 this)) (\<lambda>x2.
        and_then (values_at x (E3_key3 this)) (\<lambda>x3.
        and_then (duals_at duals (dualKey this)) (\<lambda>lambda.
        case E3_evaluateHessians this x1 x2 x3 of (G11, G12, G13, G22, G23, G33) \<Rightarrow>
        if dim lambda \<noteq> length G11 \<or> dim lambda \<noteq> length G12
           \<or> dim lambda \<noteq> length G13 \<or> dim lambda \<noteq> length G22
           \<or> dim lambda \<noteq> length G23 \<or> dim lambda \<noteq> length G33
        then Inl (RuntimeError dimension_error)
        else
          and_then (vector_at G11 0) (\<lambda>G11_0.
          and_then (vector_at G12 0) (\<lambda>G12_0.
          and_then (vector_at G13 0) (\<lambda>G13_0.
          and_then (vector_at G22 0) (\<lambda>G22_0.
          and_then (vector_at G23 0) (\<lambda>G23_0.
          and_then (vector_at G33 0) (\<lambda>G33_0.
          and_then (for_loop 0 (length lambda) (loop_body3 lambda G11 G12 G13 G22 G23 G33)
                      (zeros (rows G11_0) (cols G11_0), zeros (rows G12_0) (cols G12_0),
                       zeros (rows G13_0) (cols G13_0), zeros (rows G22_0) (cols G22_0),
                       zeros (rows G23_0) (cols G23_0), zeros (rows G33_0) (cols G33_0))) (\<lambda>s.
          case s of (lG11sum, lG12sum, lG13sum, lG22sum, lG23sum, lG33sum) \<Rightarrow>
            Inr (Some (HessianFactor3 (E3_key2 this) (E3_key2 this) (E3_key3 this)
                         lG11sum lG12sum lG13sum (zero (E3_X1Dim this))
                         lG22sum lG23sum (zero (E3_X2Dim this))
                         lG33sum (zero (E3_X3Dim this)) 0))))))))))))))"

section \<open>Predicates used in the statements\<close>

text \<open>
  Every block of a list has the shape of the list's first block, and two matrices have the
  same shape.
\<close>

definition uniform_shape :: "'a Matrix list \<Rightarrow> bool" where
  "uniform_shape G = list_all (\<lambda>M. rows M = rows (hd G) \<and> cols M = cols (hd G)) G"

definition same_shape :: "'a Matrix \<Rightarrow> 'a Matrix \<Rightarrow> bool" where
  "same_shape A B = (rows A = rows B \<and> cols A = cols B)"

section \<open>Sample objects\<close>

text \<open>
  A node type whose backward routine scales the coefficients of the block it is handed and
  puts them in front of the Jacobian map (a list), blocks of width three, constraints whose
  \<open>evaluateHessians\<close> returns a given list of blocks for every pair of variables, and
  the containers they are evaluated on.
\<close>

definition sample_derived :: "(int, int, int list, string) Derived" where
  "sample_derived =
     \<lparr>D_print = (\<lambda>this indent. indent @ ''node''),
      D_startReverseAD = (\<lambda>this J. this # J),
      D_reverseAD = (\<lambda>this dFdT J. map (\<lambda>c. c * this) (coeffs (mat dFdT)) @ J)\<rparr>"

definition sample_block :: "int \<Rightarrow> int EigenMatrix" where
  "sample_block r =
     \<lparr>RowsAtCompileTime = r, ColsAtCompileTime = 3,
      mat = \<lparr>rows = 2, cols = 3, coeffs = [1, 2, 3, 4, 5, 6]\<rparr>\<rparr>"

definition sample_incomplete :: "(int, int, int list, string) CallRecord" where
  "sample_incomplete =
     (CallRecordImplementor sample_derived 3)
       \<lparr>v_reverseAD := ReverseADImplementor (D_reverseAD sample_derived) 3 3\<rparr>"


definition small_block :: "int Matrix" where
  "small_block = \<lparr>rows = 1, cols = 1, coeffs = [2]\<rparr>"

definition large_block :: "int Matrix" where
  "large_block = \<lparr>rows = 2, cols = 2, coeffs = [1, 0, 0, 1]\<rparr>"

definition sample_values :: "Key \<rightharpoonup> unit" where
  "sample_values = [1 \<mapsto> (), 2 \<mapsto> (), 3 \<mapsto> ()]"

definition sample_duals :: "int Vector \<Rightarrow> (Key \<rightharpoonup> int Vector)" where
  "sample_duals lambda = [9 \<mapsto> lambda]"

definition sample_constraint1 :: "bool \<Rightarrow> int Matrix list \<Rightarrow> (unit, int) NonlinearEqualityConstraint1" where
  "sample_constraint1 act G =
     \<lparr>m_dualKey = 9, m_active = True, E1_key = 1, E1_X1Dim = 1,
      E1_active = (\<lambda>x. act), E1_evaluateHessians = (\<lambda>x1. G)\<rparr>"

definition sample_constraint2 :: "bool \<Rightarrow> int Matrix list \<Rightarrow> (unit, int) NonlinearEqualityConstraint2" where
  "sample_constraint2 act G =
     \<lparr>m_dualKey = 9, m_active = True, E2_key1 = 1, E2_key2 = 2, E2_X1Dim = 1, E2_X2Dim = 1,
      E2_active = (\<lambda>x. act), E2_evaluateHessians = (\<lambda>x1 x2. (G, G, G))\<rparr>"

definition sample_constraint3 :: "bool \<Rightarrow> int Matrix list \<Rightarrow> (unit, int) NonlinearEqualityConstraint3" where
  "sample_constraint3 act G =
     \<lparr>m_dualKey = 9, m_active = True, E3_key1 = 1, E3_key2 = 2, E3_key3 = 3,
      E3_X1Dim = 1, E3_X2Dim = 1, E3_X3Dim = 1,
      E3_active = (\<lambda>x. act), E3_evaluateHessians = (\<lambda>x1 x2 x3. (G, G, G, G, G, G))\<rparr>"

section \<open>The dispatch layer: entry points and routing\<close>

lemma set_ReverseADInterface:
  "set (ReverseADInterface n c) = {(Dynamic, c), (Dynamic, Dynamic)} \<union> (\<lambda>r. (int r, c)) ` {1..n}"
proof (induction n)
  case 0
  show ?case by simp
next
  case (Suc n)
  have "{1..Suc n} = insert (Suc n) {1..n}" by auto
  with Suc show ?case by auto
qed

lemma length_ReverseADInterface: "length (ReverseADInterface n c) = n + 2"
  by (induction n) simp_all

lemma distinct_ReverseADInterface: "c \<noteq> Dynamic \<Longrightarrow> distinct (ReverseADInterface n c)"
  by (induction n) (auto simp: set_ReverseADInterface Dynamic_def)

lemma snd_ReverseADImplementor:
  "(e, body) \<in> set (ReverseADImplementor f n c) \<Longrightarrow> body = f"
  by (induction n) auto

lemma map_of_ReverseADImplementor:
  "e \<in> set (ReverseADInterface n c) \<Longrightarrow> map_of (ReverseADImplementor f n c) e = Some f"
  by (induction n) (auto simp: map_add_def split: option.splits dest: map_of_SomeD snd_ReverseADImplementor)

lemma overload_resolution_unique:
  "distinct entries \<Longrightarrow> (RowsAtCompileTime y, ColsAtCompileTime y) \<in> set entries
   \<Longrightarrow> overload_resolution entries y = [(RowsAtCompileTime y, ColsAtCompileTime y)]"
  unfolding overload_resolution_def
  by (induction entries) (auto simp: filter_empty_conv)

lemma static_entry:
  "1 \<le> r \<Longrightarrow> r \<le> int n \<Longrightarrow> (r, c) \<in> set (ReverseADInterface n c)"
proof -
  assume "1 \<le> r" "r \<le> int n"
  then have "nat r \<in> {1..n}" "int (nat r) = r" by auto
  then show ?thesis unfolding set_ReverseADInterface by force
qed

lemma CallRecord_reverseAD_static:
  assumes "c \<noteq> Dynamic" "ColsAtCompileTime dFdT = c"
    "1 \<le> RowsAtCompileTime dFdT" "RowsAtCompileTime dFdT \<le> MaxVirtualStaticRows"
  shows "CallRecord_reverseAD (CallRecordImplementor D c) this dFdT J
         = Some (D_reverseAD D this dFdT J)"
proof -
  let ?n = "nat MaxVirtualStaticRows"
  from assms have m: "(RowsAtCompileTime dFdT, ColsAtCompileTime dFdT) \<in> set (ReverseADInterface ?n c)"
    by (auto intro!: static_entry simp: MaxVirtualStaticRows_def)
  from overload_resolution_unique[OF distinct_ReverseADInterface[OF assms(1)] m]
    map_of_ReverseADImplementor[OF m, of "D_reverseAD D"] assms
  show ?thesis
    by (simp add: CallRecord_reverseAD_def CallRecordImplementor_def ConvertToDynamicRowsIf_def)
qed

lemma CallRecord_reverseAD_dynamic:
  assumes "c \<noteq> Dynamic" "ColsAtCompileTime dFdT = c"
    "RowsAtCompileTime dFdT = Dynamic \<or> MaxVirtualStaticRows < RowsAtCompileTime dFdT"
  shows "CallRecord_reverseAD (CallRecordImplementor D c) this dFdT J
         = Some (D_reverseAD D this (dFdT\<lparr>RowsAtCompileTime := Dynamic\<rparr>) J)"
proof -
  let ?n = "nat MaxVirtualStaticRows"
  let ?y = "dFdT\<lparr>RowsAtCompileTime := Dynamic\<rparr>"
  from assms have y: "ConvertToDynamicRowsIf (RowsAtCompileTime dFdT > MaxVirtualStaticRows) dFdT = ?y"
    by (auto simp: ConvertToDynamicRowsIf_def)
  from assms have m: "(RowsAtCompileTime ?y, ColsAtCompileTime ?y) \<in> set (ReverseADInterface ?n c)"
    by (simp add: set_ReverseADInterface)
  from overload_resolution_unique[OF distinct_ReverseADInterface[OF assms(1)] m]
    map_of_ReverseADImplementor[OF m, of "D_reverseAD D"] assms(2) y
  show ?thesis
    by (simp add: CallRecord_reverseAD_def CallRecordImplementor_def)
qed

text \<open>
  C1: for a row count \<open>r\<close> in \<open>1..MaxVirtualStaticRows\<close> and a fixed column width,
  \<open>CallRecord::reverseAD\<close> on a block with \<open>r\<close> static rows and on a block with dynamic
  rows holding the same coefficients gives the same Jacobian map, provided the derived
  routine is generic in the row count (its result depends on the coefficients and the column
  width of the block only). Both calls reach the derived routine, and every entry point of
  the implementor is that one routine.
\<close>

theorem static_dynamic_equivalence:
  assumes "\<And>this x y J. mat x = mat y \<Longrightarrow> ColsAtCompileTime x = ColsAtCompileTime y
             \<Longrightarrow> D_reverseAD D this x J = D_reverseAD D this y J"
    and "1 \<le> r" "r \<le> MaxVirtualStaticRows" "c \<noteq> Dynamic"
  shows "CallRecord_reverseAD (CallRecordImplementor D c) this
           \<lparr>RowsAtCompileTime = r, ColsAtCompileTime = c, mat = m\<rparr> J
         = CallRecord_reverseAD (CallRecordImplementor D c) this
           \<lparr>RowsAtCompileTime = Dynamic, ColsAtCompileTime = c, mat = m\<rparr> J
       \<and> CallRecord_reverseAD (CallRecordImplementor D c) this
           \<lparr>RowsAtCompileTime = r, ColsAtCompileTime = c, mat = m\<rparr> J
         = Some (D_reverseAD D this \<lparr>RowsAtCompileTime = r, ColsAtCompileTime = c, mat = m\<rparr> J)
       \<and> list_all (\<lambda>e. map_of (v_reverseAD (CallRecordImplementor D c)) e = Some (D_reverseAD D))
           (ReverseADInterface (nat MaxVirtualStaticRows) c)"
proof -
  let ?s = "\<lparr>RowsAtCompileTime = r, ColsAtCompileTime = c, mat = m\<rparr>"
  let ?d = "\<lparr>RowsAtCompileTime = Dynamic, ColsAtCompileTime = c, mat = m\<rparr>"
  have s: "CallRecord_reverseAD (CallRecordImplementor D c) this ?s J = Some (D_reverseAD D this ?s J)"
    using assms(2-4) by (intro CallRecord_reverseAD_static) simp_all
  have d: "CallRecord_reverseAD (CallRecordImplementor D c) this ?d J = Some (D_reverseAD D this ?d J)"
    using CallRecord_reverseAD_dynamic[of c ?d D this J] assms(4) by simp
  have "D_reverseAD D this ?s J = D_reverseAD D this ?d J"
    by (rule assms(1)) simp_all
  moreover have "list_all (\<lambda>e. map_of (v_reverseAD (CallRecordImplementor D c)) e = Some (D_reverseAD D))
           (ReverseADInterface (nat MaxVirtualStaticRows) c)"
    by (simp add: list_all_iff CallRecordImplementor_def map_of_ReverseADImplementor)
  ultimately show ?thesis using s d by simp
qed

theorem static_dynamic_equivalence_witness:
  "CallRecord_reverseAD (CallRecordImplementor sample_derived 3) 7 (sample_block 2) [0]
     = CallRecord_reverseAD (CallRecordImplementor sample_derived 3) 7 (sample_block Dynamic) [0]
   \<and> CallRecord_reverseAD (CallRecordImplementor sample_derived 3) 7 (sample_block 2) [0]
     = Some [7, 14, 21, 28, 35, 42, 0]"
proof -
  have g: "\<And>this x y J. mat x = mat y \<Longrightarrow> ColsAtCompileTime x = ColsAtCompileTime y
      \<Longrightarrow> D_reverseAD sample_derived this x J = D_reverseAD sample_derived this y J"
    by (simp add: sample_derived_def)
  have h: "(1::int) \<le> 2" "(2::int) \<le> MaxVirtualStaticRows" "(3::int) \<noteq> Dynamic"
    by (simp_all add: MaxVirtualStaticRows_def Dynamic_def)
  have b: "\<lparr>RowsAtCompileTime = r, ColsAtCompileTime = 3, mat = mat (sample_block 2)\<rparr>
      = sample_block r" for r
    by (simp add: sample_block_def)
  from static_dynamic_equivalence[OF g h, of 7 "mat (sample_block 2)" "[0]", unfolded b]
  have e: "CallRecord_reverseAD (CallRecordImplementor sample_derived 3) 7 (sample_block 2) [0]
      = CallRecord_reverseAD (CallRecordImplementor sample_derived 3) 7 (sample_block Dynamic) [0]"
    and v: "CallRecord_reverseAD (CallRecordImplementor sample_derived 3) 7 (sample_block 2) [0]
      = Some (D_reverseAD sample_derived 7 (sample_block 2) [0])"
    by blast+
  have "D_reverseAD sample_derived 7 (sample_block 2) [0] = [7, 14, 21, 28, 35, 42, 0]"
    by (simp add: sample_block_def sample_derived_def)
  with e v show ?thesis by simp
qed



text \<open>
  C3: at its call site \<open>ConvertToDynamicRowsIf\<close> is chosen by the comparison of the static
  row count with \<open>MaxVirtualStaticRows\<close> alone. It returns its argument when the row count
  is at most the bound or dynamic, and otherwise a block with dynamic rows, the same
  compile-time columns and the same coefficients.
\<close>

theorem ConvertToDynamicRowsIf_spec:
  "(RowsAtCompileTime x \<le> MaxVirtualStaticRows \<longrightarrow>
      ConvertToDynamicRowsIf (RowsAtCompileTime x > MaxVirtualStaticRows) x = x)
   \<and> (RowsAtCompileTime x = Dynamic \<longrightarrow>
      ConvertToDynamicRowsIf (RowsAtCompileTime x > MaxVirtualStaticRows) x = x)
   \<and> (MaxVirtualStaticRows < RowsAtCompileTime x \<longrightarrow>
      RowsAtCompileTime (ConvertToDynamicRowsIf (RowsAtCompileTime x > MaxVirtualStaticRows) x)
        = Dynamic
      \<and> ColsAtCompileTime (ConvertToDynamicRowsIf (RowsAtCompileTime x > MaxVirtualStaticRows) x)
        = ColsAtCompileTime x
      \<and> mat (ConvertToDynamicRowsIf (RowsAtCompileTime x > MaxVirtualStaticRows) x) = mat x)
   \<and> ConvertToDynamicRowsIf False x = x
   \<and> ConvertToDynamicRowsIf True x = x\<lparr>RowsAtCompileTime := Dynamic\<rparr>"
  by (simp add: ConvertToDynamicRowsIf_def Dynamic_def MaxVirtualStaticRows_def)

theorem ConvertToDynamicRowsIf_spec_witness:
  "ConvertToDynamicRowsIf (RowsAtCompileTime (sample_block 4) > MaxVirtualStaticRows)
     (sample_block 4) = sample_block 4
   \<and> ConvertToDynamicRowsIf (RowsAtCompileTime (sample_block Dynamic) > MaxVirtualStaticRows)
     (sample_block Dynamic) = sample_block Dynamic
   \<and> RowsAtCompileTime (ConvertToDynamicRowsIf
       (RowsAtCompileTime (sample_block 5) > MaxVirtualStaticRows) (sample_block 5)) = Dynamic
   \<and> ColsAtCompileTime (ConvertToDynamicRowsIf
       (RowsAtCompileTime (sample_block 5) > MaxVirtualStaticRows) (sample_block 5)) = 3
   \<and> mat (ConvertToDynamicRowsIf
       (RowsAtCompileTime (sample_block 5) > MaxVirtualStaticRows) (sample_block 5))
     = \<lparr>rows = 2, cols = 3, coeffs = [1, 2, 3, 4, 5, 6]\<rparr>"
proof -
  have r: "RowsAtCompileTime (sample_block 4) \<le> MaxVirtualStaticRows"
    "RowsAtCompileTime (sample_block Dynamic) = Dynamic"
    "MaxVirtualStaticRows < RowsAtCompileTime (sample_block 5)"
    by (simp_all add: sample_block_def MaxVirtualStaticRows_def)
  have v: "ColsAtCompileTime (sample_block 5) = 3"
    "mat (sample_block 5) = \<lparr>rows = 2, cols = 3, coeffs = [1, 2, 3, 4, 5, 6]\<rparr>"
    by (simp_all add: sample_block_def)
  from ConvertToDynamicRowsIf_spec[of "sample_block 4"]
    ConvertToDynamicRowsIf_spec[of "sample_block Dynamic"]
    ConvertToDynamicRowsIf_spec[of "sample_block 5"] r
  have "ConvertToDynamicRowsIf (RowsAtCompileTime (sample_block 4) > MaxVirtualStaticRows)
      (sample_block 4) = sample_block 4"
    and "ConvertToDynamicRowsIf (RowsAtCompileTime (sample_block Dynamic) > MaxVirtualStaticRows)
      (sample_block Dynamic) = sample_block Dynamic"
    and "RowsAtCompileTime (ConvertToDynamicRowsIf
       (RowsAtCompileTime (sample_block 5) > MaxVirtualStaticRows) (sample_block 5)) = Dynamic"
    and "ColsAtCompileTime (ConvertToDynamicRowsIf
       (RowsAtCompileTime (sample_block 5) > MaxVirtualStaticRows) (sample_block 5))
       = ColsAtCompileTime (sample_block 5)"
    and "mat (ConvertToDynamicRowsIf
       (RowsAtCompileTime (sample_block 5) > MaxVirtualStaticRows) (sample_block 5))
       = mat (sample_block 5)"
    by blast+
  with v show ?thesis by simp
qed

text \<open>
  C4: level \<open>0\<close> of the interface declares the entry point for dynamic rows and the fully
  dynamic one, level \<open>n + 1\<close> adds the entry point for \<open>n + 1\<close> rows to level \<open>n\<close>, so
  that \<open>ReverseADInterface<MaxVirtualStaticRows, Cols>\<close> declares
  \<open>MaxVirtualStaticRows + 2\<close> entry points, pairwise different for a fixed column width.
  All are pure virtual: the interface itself cannot be instantiated, nor can any record
  that leaves one entry point without a body, while the record built by
  \<open>CallRecordImplementor\<close> can.
\<close>

theorem interface_entry_points:
  "ReverseADInterface 0 c = [(Dynamic, c), (Dynamic, Dynamic)]
   \<and> ReverseADInterface (Suc n) c = ReverseADInterface n c @ [(int (Suc n), c)]
   \<and> length (ReverseADInterface n c) = n + 2
   \<and> ReverseADInterface (nat MaxVirtualStaticRows) c
       = [(Dynamic, c), (Dynamic, Dynamic), (1, c), (2, c), (3, c), (4, c)]
   \<and> length (ReverseADInterface (nat MaxVirtualStaticRows) c) = nat MaxVirtualStaticRows + 2
   \<and> (c \<noteq> Dynamic \<longrightarrow> distinct (ReverseADInterface (nat MaxVirtualStaticRows) c))
   \<and> \<not> instantiable (CallRecord_interface c)
   \<and> (\<forall>e \<in> set (ReverseADInterface (nat MaxVirtualStaticRows) (Cols r)).
         map_of (v_reverseAD r) e = None \<longrightarrow> \<not> instantiable r)
   \<and> instantiable (CallRecordImplementor D c)"
proof (intro conjI)
  have four: "nat MaxVirtualStaticRows = Suc (Suc (Suc (Suc 0)))"
    by (simp add: MaxVirtualStaticRows_def)
  show "ReverseADInterface 0 c = [(Dynamic, c), (Dynamic, Dynamic)]" by simp
  show "ReverseADInterface (Suc n) c = ReverseADInterface n c @ [(int (Suc n), c)]" by simp
  show "length (ReverseADInterface n c) = n + 2" by (rule length_ReverseADInterface)
  show "ReverseADInterface (nat MaxVirtualStaticRows) c
       = [(Dynamic, c), (Dynamic, Dynamic), (1, c), (2, c), (3, c), (4, c)]"
    unfolding four by simp
  show "length (ReverseADInterface (nat MaxVirtualStaticRows) c) = nat MaxVirtualStaticRows + 2"
    by (rule length_ReverseADInterface)
  show "c \<noteq> Dynamic \<longrightarrow> distinct (ReverseADInterface (nat MaxVirtualStaticRows) c)"
    by (simp add: distinct_ReverseADInterface)
  show "\<not> instantiable (CallRecord_interface c)"
    by (simp add: instantiable_def CallRecord_interface_def)
  show "\<forall>e \<in> set (ReverseADInterface (nat MaxVirtualStaticRows) (Cols r)).
         map_of (v_reverseAD r) e = None \<longrightarrow> \<not> instantiable r"
    by (auto simp: instantiable_def list_all_iff)
  show "instantiable (CallRecordImplementor D c)"
    by (simp add: instantiable_def list_all_iff CallRecordImplementor_def
        map_of_ReverseADImplementor)
qed

theorem interface_entry_points_witness:
  "distinct (ReverseADInterface (nat MaxVirtualStaticRows) 3)
   \<and> (4, 3) \<in> set (ReverseADInterface (nat MaxVirtualStaticRows) (Cols sample_incomplete))
   \<and> map_of (v_reverseAD sample_incomplete) (4, 3) = None
   \<and> \<not> instantiable sample_incomplete"
proof -
  note t = interface_entry_points[of 3 0 sample_incomplete sample_derived]
  have c: "(3::int) \<noteq> Dynamic" by (simp add: Dynamic_def)
  have k: "Cols sample_incomplete = 3"
    by (simp add: sample_incomplete_def CallRecordImplementor_def)
  have three: "(3::nat) = Suc (Suc (Suc 0))" by simp
  from t have "ReverseADInterface (nat MaxVirtualStaticRows) 3
       = [(Dynamic, 3), (Dynamic, Dynamic), (1, 3), (2, 3), (3, 3), (4, 3)]"
    by blast
  then have m: "(4, 3) \<in> set (ReverseADInterface (nat MaxVirtualStaticRows) (Cols sample_incomplete))"
    unfolding k by simp
  have n: "map_of (v_reverseAD sample_incomplete) (4, 3) = None"
    unfolding sample_incomplete_def three by (simp add: Dynamic_def)
  from t c m n show ?thesis unfolding k by blast
qed

text \<open>
  C5, as stated, fails: for a record of column width three, the fully dynamic entry point
  takes a gtsam \<open>Matrix\<close>, whose column count is dynamic and not three.
\<close>

theorem fully_dynamic_entry_has_dynamic_columns:
  "(Dynamic, Dynamic) \<in> set (ReverseADInterface (nat MaxVirtualStaticRows) 3)
   \<and> snd (Dynamic, Dynamic) \<noteq> (3::int)"
  by (simp add: set_ReverseADInterface Dynamic_def)

text \<open>
  C5, amended: every entry point other than the fully dynamic one takes blocks of the fixed
  column width \<open>Cols\<close>, with a row count that is dynamic or one of
  \<open>1..MaxVirtualStaticRows\<close>, and each of these row counts has its entry point; the fully
  dynamic entry point takes a block whose rows and columns are both dynamic.
\<close>

theorem entry_point_column_widths:
  "(\<forall>e \<in> set (ReverseADInterface (nat MaxVirtualStaticRows) c).
      e = (Dynamic, Dynamic)
      \<or> (snd e = c \<and> (fst e = Dynamic \<or> (1 \<le> fst e \<and> fst e \<le> MaxVirtualStaticRows))))
   \<and> (Dynamic, Dynamic) \<in> set (ReverseADInterface (nat MaxVirtualStaticRows) c)
   \<and> (Dynamic, c) \<in> set (ReverseADInterface (nat MaxVirtualStaticRows) c)
   \<and> (\<forall>r. 1 \<le> r \<and> r \<le> MaxVirtualStaticRows \<longrightarrow>
         (r, c) \<in> set (ReverseADInterface (nat MaxVirtualStaticRows) c))"
proof -
  have "\<forall>r. 1 \<le> r \<and> r \<le> MaxVirtualStaticRows \<longrightarrow>
         (r, c) \<in> set (ReverseADInterface (nat MaxVirtualStaticRows) c)"
    by (auto intro!: static_entry simp: MaxVirtualStaticRows_def)
  then show ?thesis
    by (auto simp: set_ReverseADInterface MaxVirtualStaticRows_def)
qed

theorem entry_point_column_widths_witness:
  "(2, 3) \<in> set (ReverseADInterface (nat MaxVirtualStaticRows) 3)
   \<and> snd (2::int, 3::int) = 3 \<and> (2::int, 3::int) \<noteq> (Dynamic, Dynamic)
   \<and> (Dynamic, Dynamic) \<in> set (ReverseADInterface (nat MaxVirtualStaticRows) 3)"
proof -
  have "(1::int) \<le> 2 \<and> 2 \<le> MaxVirtualStaticRows" by (simp add: MaxVirtualStaticRows_def)
  with entry_point_column_widths[of 3]
  have "(2, 3) \<in> set (ReverseADInterface (nat MaxVirtualStaticRows) 3)"
    and "(Dynamic, Dynamic) \<in> set (ReverseADInterface (nat MaxVirtualStaticRows) 3)"
    by blast+
  then show ?thesis by (simp add: Dynamic_def)
qed




section \<open>The constraints: the dimension check and the returned factor\<close>

lemmas sample_defs = small_block_def large_block_def sample_values_def sample_duals_def
  sample_constraint1_def sample_constraint2_def sample_constraint3_def

lemmas eval_defs = multipliedHessian1_def multipliedHessian2_def multipliedHessian3_def
  and_then_def values_at_def duals_at_def dualKey_def dim_def vector_at_def for_loop.simps
  loop_body1_def loop_body2_def loop_body3_def accumulate_def plus_assign_def scale_def
  zeros_def zero_def HessianFactor1_def HessianFactor2_def HessianFactor3_def

lemma for_loop_invariant:
  "I s \<Longrightarrow> (\<And>j t. j < n \<Longrightarrow> I t \<Longrightarrow> \<exists>t'. body j t = Inr t' \<and> I t')
    \<Longrightarrow> \<exists>s'. for_loop i n body s = Inr s' \<and> I s'"
proof (induction i n body s rule: for_loop.induct)
  case (1 i n body s)
  show ?case
  proof (cases "i < n")
    case False
    with "1.prems"(1) show ?thesis by (simp add: for_loop.simps)
  next
    case True
    from "1.prems"(2)[OF True "1.prems"(1)] obtain t' where b: "body i s = Inr t'" and t: "I t'"
      by blast
    from "1.IH"[OF True b t "1.prems"(2)] obtain s' where "for_loop (Suc i) n body t' = Inr s'" "I s'"
      by blast
    with True b show ?thesis by (subst for_loop.simps) simp
  qed
qed

lemma for_loop_error:
  "(\<And>j t e'. body j t = Inl e' \<Longrightarrow> P e') \<Longrightarrow> for_loop i n body s = Inl e \<Longrightarrow> P e"
proof (induction i n body s rule: for_loop.induct)
  case (1 i n body s)
  show ?case
  proof (cases "i < n")
    case False
    with "1.prems"(2) show ?thesis by (simp add: for_loop.simps)
  next
    case True
    show ?thesis
    proof (cases "body i s")
      case (Inl e')
      with True "1.prems"(2) have "e' = e" by (subst (asm) for_loop.simps) simp
      with Inl "1.prems"(1) show ?thesis by blast
    next
      case (Inr t')
      with True "1.prems"(2) have "for_loop (Suc i) n body t' = Inl e"
        by (subst (asm) for_loop.simps) simp
      from "1.IH"[OF True Inr "1.prems"(1) this] show ?thesis .
    qed
  qed
qed

lemma accumulate_ok:
  "i < length lambda \<Longrightarrow> length G = length lambda \<Longrightarrow> uniform_shape G \<Longrightarrow> same_shape s (hd G)
   \<Longrightarrow> \<exists>s'. accumulate s lambda G i = Inr s' \<and> same_shape s' (hd G)"
  by (auto simp: accumulate_def vector_at_def plus_assign_def scale_def uniform_shape_def
      same_shape_def list_all_length)

lemma accumulate_error:
  "accumulate s lambda G i = Inl e \<Longrightarrow> e = VectorIndexOutOfBounds \<or> e = EigenSizeMismatch"
  by (auto simp: accumulate_def vector_at_def plus_assign_def split: if_splits)

lemma loop1_ok:
  assumes "length G = length lambda" "uniform_shape G" "same_shape s (hd G)"
  shows "\<exists>s'. for_loop 0 (length lambda) (loop_body1 lambda G) s = Inr s'"
proof -
  have "\<exists>s'. for_loop 0 (length lambda) (loop_body1 lambda G) s = Inr s' \<and> same_shape s' (hd G)"
    by (rule for_loop_invariant[where I = "\<lambda>t. same_shape t (hd G)"])
       (use assms in \<open>auto simp: loop_body1_def intro: accumulate_ok\<close>)
  then show ?thesis by blast
qed

lemma multipliedHessian1_throws_iff:
  assumes "E1_active this x" "x (E1_key this) = Some x1" "duals (dualKey this) = Some lambda"
  shows "multipliedHessian1 this x duals = Inl (RuntimeError dimension_error)
         \<longleftrightarrow> length (E1_evaluateHessians this x1) \<noteq> dim lambda"
proof (cases "length (E1_evaluateHessians this x1) = dim lambda")
  case False
  with assms show ?thesis
    by (auto simp: multipliedHessian1_def and_then_def values_at_def duals_at_def Let_def)
next
  case True
  have "multipliedHessian1 this x duals \<noteq> Inl (RuntimeError dimension_error)"
  proof
    assume a: "multipliedHessian1 this x duals = Inl (RuntimeError dimension_error)"
    have nl: "for_loop 0 (length lambda) (loop_body1 lambda G) s \<noteq> Inl (RuntimeError m)" for G s m
    proof
      assume "for_loop 0 (length lambda) (loop_body1 lambda G) s = Inl (RuntimeError m)"
      then have "RuntimeError m = VectorIndexOutOfBounds \<or> RuntimeError m = EigenSizeMismatch"
        by (rule for_loop_error[rotated]) (auto simp: loop_body1_def dest: accumulate_error)
      then show False by simp
    qed
    from a assms True nl show False
      by (auto simp: multipliedHessian1_def and_then_def values_at_def duals_at_def Let_def
          vector_at_def split: if_splits sum.splits)
  qed
  with True show ?thesis by simp
qed

lemma multipliedHessian1_returns:
  assumes "E1_active this x" "x (E1_key this) = Some x1" "duals (dualKey this) = Some lambda"
    and "length (E1_evaluateHessians this x1) = dim lambda" "0 < dim lambda"
    and "uniform_shape (E1_evaluateHessians this x1)"
  shows "\<exists>hf. multipliedHessian1 this x duals = Inr (Some hf)"
proof -
  let ?G = "E1_evaluateHessians this x1"
  from assms have ne: "?G \<noteq> []" by (auto simp: dim_def)
  then have h: "vector_at ?G 0 = Inr (hd ?G)" by (simp add: vector_at_def hd_conv_nth)
  have "same_shape (zeros (rows (hd ?G)) (cols (hd ?G))) (hd ?G)"
    by (simp add: same_shape_def zeros_def)
  from loop1_ok[OF _ assms(6) this, of lambda] assms(4)
  obtain s' where "for_loop 0 (length lambda) (loop_body1 lambda ?G)
      (zeros (rows (hd ?G)) (cols (hd ?G))) = Inr s'"
    by (auto simp: dim_def)
  with assms h show ?thesis
    by (simp add: multipliedHessian1_def and_then_def values_at_def duals_at_def Let_def)
qed


lemma values_at_Some: "x j = Some v \<Longrightarrow> values_at x j = Inr v"
  by (simp add: values_at_def)

lemma duals_at_Some: "duals j = Some v \<Longrightarrow> duals_at duals j = Inr v"
  by (simp add: duals_at_def)

lemma vector_at_0: "0 < length G \<Longrightarrow> vector_at G 0 = Inr (hd G)"
  by (cases G) (simp_all add: vector_at_def)

lemma same_shape_zeros: "same_shape (zeros (rows M) (cols M)) M"
  by (simp add: same_shape_def zeros_def)

lemma loop_body2_ok:
  assumes "i < length lambda" "length G11 = length lambda" "length G12 = length lambda"
    "length G22 = length lambda" "uniform_shape G11" "uniform_shape G12" "uniform_shape G22"
    "same_shape a (hd G11)" "same_shape b (hd G12)" "same_shape c (hd G22)"
  shows "\<exists>a' b' c'. loop_body2 lambda G11 G12 G22 i (a, b, c) = Inr (a', b', c')
      \<and> same_shape a' (hd G11) \<and> same_shape b' (hd G12) \<and> same_shape c' (hd G22)"
proof -
  from accumulate_ok[OF assms(1,2,5,8)] obtain a' where
    a: "accumulate a lambda G11 i = Inr a'" "same_shape a' (hd G11)" by blast
  from accumulate_ok[OF assms(1,3,6,9)] obtain b' where
    b: "accumulate b lambda G12 i = Inr b'" "same_shape b' (hd G12)" by blast
  from accumulate_ok[OF assms(1,4,7,10)] obtain c' where
    c: "accumulate c lambda G22 i = Inr c'" "same_shape c' (hd G22)" by blast
  from a b c show ?thesis by (simp add: loop_body2_def and_then_def)
qed

lemma loop_body2_error:
  "loop_body2 lambda G11 G12 G22 i s = Inl e \<Longrightarrow> e = VectorIndexOutOfBounds \<or> e = EigenSizeMismatch"
  by (auto simp: loop_body2_def and_then_def split: prod.splits sum.splits dest: accumulate_error)

lemma loop2_ok:
  assumes "length G11 = length lambda" "length G12 = length lambda" "length G22 = length lambda"
    "uniform_shape G11" "uniform_shape G12" "uniform_shape G22"
    "same_shape a (hd G11)" "same_shape b (hd G12)" "same_shape c (hd G22)"
  shows "\<exists>s'. for_loop 0 (length lambda) (loop_body2 lambda G11 G12 G22) (a, b, c) = Inr s'"
proof -
  let ?I = "\<lambda>t. case t of (a, b, c) \<Rightarrow>
      same_shape a (hd G11) \<and> same_shape b (hd G12) \<and> same_shape c (hd G22)"
  have "\<exists>s'. for_loop 0 (length lambda) (loop_body2 lambda G11 G12 G22) (a, b, c) = Inr s' \<and> ?I s'"
  proof (rule for_loop_invariant[where I = ?I])
    show "?I (a, b, c)" using assms by simp
  next
    fix j t assume j: "j < length lambda" and t: "?I t"
    obtain a b c where [simp]: "t = (a, b, c)" by (cases t) auto
    from loop_body2_ok[OF j assms(1-6), of a b c] t
    show "\<exists>t'. loop_body2 lambda G11 G12 G22 j t = Inr t' \<and> ?I t'" by auto
  qed
  then show ?thesis by blast
qed

lemma multipliedHessian2_throws_iff:
  assumes "E2_active this x" "x (E2_key1 this) = Some x1" "x (E2_key2 this) = Some x2"
    "duals (dualKey this) = Some lambda" "E2_evaluateHessians this x1 x2 = (G11, G12, G22)"
  shows "multipliedHessian2 this x duals = Inl (RuntimeError dimension_error)
         \<longleftrightarrow> length G11 \<noteq> dim lambda \<or> length G12 \<noteq> dim lambda \<or> length G22 \<noteq> dim lambda"
proof (cases "length G11 \<noteq> dim lambda \<or> length G12 \<noteq> dim lambda \<or> length G22 \<noteq> dim lambda")
  case True
  with assms show ?thesis
    by (auto simp: multipliedHessian2_def values_at_Some duals_at_Some and_then_def)
next
  case False
  have "multipliedHessian2 this x duals \<noteq> Inl (RuntimeError dimension_error)"
  proof
    assume a: "multipliedHessian2 this x duals = Inl (RuntimeError dimension_error)"
    have nl: "for_loop 0 (length lambda) (loop_body2 lambda G11 G12 G22) s \<noteq> Inl (RuntimeError m)" for s m
    proof
      assume "for_loop 0 (length lambda) (loop_body2 lambda G11 G12 G22) s = Inl (RuntimeError m)"
      then have "RuntimeError m = VectorIndexOutOfBounds \<or> RuntimeError m = EigenSizeMismatch"
        by (rule for_loop_error[rotated]) (auto dest: loop_body2_error)
      then show False by simp
    qed
    from a assms False nl show False
      by (auto simp: multipliedHessian2_def and_then_def values_at_Some duals_at_Some
          vector_at_def split: if_splits sum.splits prod.splits)
  qed
  with False show ?thesis by simp
qed

lemma multipliedHessian2_returns:
  assumes "E2_active this x" "x (E2_key1 this) = Some x1" "x (E2_key2 this) = Some x2"
    "duals (dualKey this) = Some lambda" "E2_evaluateHessians this x1 x2 = (G11, G12, G22)"
    and "length G11 = dim lambda" "length G12 = dim lambda" "length G22 = dim lambda"
    and "0 < dim lambda" "uniform_shape G11" "uniform_shape G12" "uniform_shape G22"
  shows "\<exists>hf. multipliedHessian2 this x duals = Inr (Some hf)"
proof -
  from assms have l: "length G11 = length lambda" "length G12 = length lambda"
    "length G22 = length lambda" "0 < length lambda"
    by (simp_all add: dim_def)
  from loop2_ok[OF l(1-3) assms(10-12) same_shape_zeros same_shape_zeros same_shape_zeros]
  obtain s' where "for_loop 0 (length lambda) (loop_body2 lambda G11 G12 G22)
      (zeros (rows (hd G11)) (cols (hd G11)), zeros (rows (hd G12)) (cols (hd G12)),
       zeros (rows (hd G22)) (cols (hd G22))) = Inr s'"
    by blast
  with assms l show ?thesis
    by (simp add: multipliedHessian2_def and_then_def values_at_Some duals_at_Some vector_at_0
        split: prod.splits)
qed

lemma loop_body3_ok:
  assumes "i < length lambda"
    and "length G11 = length lambda" "length G12 = length lambda" "length G13 = length lambda"
      "length G22 = length lambda" "length G23 = length lambda" "length G33 = length lambda"
    and "uniform_shape G11" "uniform_shape G12" "uniform_shape G13"
      "uniform_shape G22" "uniform_shape G23" "uniform_shape G33"
    and "same_shape a (hd G11)" "same_shape b (hd G12)" "same_shape c (hd G13)"
      "same_shape d (hd G22)" "same_shape e (hd G23)" "same_shape f (hd G33)"
  shows "\<exists>a' b' c' d' e' f'.
      loop_body3 lambda G11 G12 G13 G22 G23 G33 i (a, b, c, d, e, f) = Inr (a', b', c', d', e', f')
      \<and> same_shape a' (hd G11) \<and> same_shape b' (hd G12) \<and> same_shape c' (hd G13)
      \<and> same_shape d' (hd G22) \<and> same_shape e' (hd G23) \<and> same_shape f' (hd G33)"
proof -
  from accumulate_ok[OF assms(1) assms(2) assms(8) assms(14)] obtain a' where
    a: "accumulate a lambda G11 i = Inr a'" "same_shape a' (hd G11)" by blast
  from accumulate_ok[OF assms(1) assms(3) assms(9) assms(15)] obtain b' where
    b: "accumulate b lambda G12 i = Inr b'" "same_shape b' (hd G12)" by blast
  from accumulate_ok[OF assms(1) assms(4) assms(10) assms(16)] obtain c' where
    c: "accumulate c lambda G13 i = Inr c'" "same_shape c' (hd G13)" by blast
  from accumulate_ok[OF assms(1) assms(5) assms(11) assms(17)] obtain d' where
    d: "accumulate d lambda G22 i = Inr d'" "same_shape d' (hd G22)" by blast
  from accumulate_ok[OF assms(1) assms(6) assms(12) assms(18)] obtain e' where
    e: "accumulate e lambda G23 i = Inr e'" "same_shape e' (hd G23)" by blast
  from accumulate_ok[OF assms(1) assms(7) assms(13) assms(19)] obtain f' where
    f: "accumulate f lambda G33 i = Inr f'" "same_shape f' (hd G33)" by blast
  from a b c d e f show ?thesis by (simp add: loop_body3_def and_then_def)
qed

lemma loop_body3_error:
  "loop_body3 lambda G11 G12 G13 G22 G23 G33 i s = Inl e
   \<Longrightarrow> e = VectorIndexOutOfBounds \<or> e = EigenSizeMismatch"
  by (auto simp: loop_body3_def and_then_def split: prod.splits sum.splits dest: accumulate_error)

lemma loop3_ok:
  assumes "length G11 = length lambda" "length G12 = length lambda" "length G13 = length lambda"
      "length G22 = length lambda" "length G23 = length lambda" "length G33 = length lambda"
    and "uniform_shape G11" "uniform_shape G12" "uniform_shape G13"
      "uniform_shape G22" "uniform_shape G23" "uniform_shape G33"
    and "same_shape a (hd G11)" "same_shape b (hd G12)" "same_shape c (hd G13)"
      "same_shape d (hd G22)" "same_shape e (hd G23)" "same_shape f (hd G33)"
  shows "\<exists>s'. for_loop 0 (length lambda) (loop_body3 lambda G11 G12 G13 G22 G23 G33)
            (a, b, c, d, e, f) = Inr s'"
proof -
  let ?I = "\<lambda>t. case t of (a, b, c, d, e, f) \<Rightarrow>
      same_shape a (hd G11) \<and> same_shape b (hd G12) \<and> same_shape c (hd G13)
      \<and> same_shape d (hd G22) \<and> same_shape e (hd G23) \<and> same_shape f (hd G33)"
  have "\<exists>s'. for_loop 0 (length lambda) (loop_body3 lambda G11 G12 G13 G22 G23 G33)
            (a, b, c, d, e, f) = Inr s' \<and> ?I s'"
  proof (rule for_loop_invariant[where I = ?I])
    show "?I (a, b, c, d, e, f)" using assms by simp
  next
    fix j t assume j: "j < length lambda" and t: "?I t"
    obtain a b c d e f where [simp]: "t = (a, b, c, d, e, f)" by (cases t) auto
    from loop_body3_ok[OF j assms(1-12), of a b c d e f] t
    show "\<exists>t'. loop_body3 lambda G11 G12 G13 G22 G23 G33 j t = Inr t' \<and> ?I t'" by auto
  qed
  then show ?thesis by blast
qed

lemma multipliedHessian3_throws_iff:
  assumes "E3_active this x" "x (E3_key1 this) = Some x1" "x (E3_key2 this) = Some x2"
    "x (E3_key3 this) = Some x3" "duals (dualKey this) = Some lambda"
    "E3_evaluateHessians this x1 x2 x3 = (G11, G12, G13, G22, G23, G33)"
  shows "multipliedHessian3 this x duals = Inl (RuntimeError dimension_error)
         \<longleftrightarrow> length G11 \<noteq> dim lambda \<or> length G12 \<noteq> dim lambda \<or> length G13 \<noteq> dim lambda
           \<or> length G22 \<noteq> dim lambda \<or> length G23 \<noteq> dim lambda \<or> length G33 \<noteq> dim lambda"
proof (cases "length G11 \<noteq> dim lambda \<or> length G12 \<noteq> dim lambda \<or> length G13 \<noteq> dim lambda
           \<or> length G22 \<noteq> dim lambda \<or> length G23 \<noteq> dim lambda \<or> length G33 \<noteq> dim lambda")
  case True
  with assms show ?thesis
    by (auto simp: multipliedHessian3_def values_at_Some duals_at_Some and_then_def)
next
  case False
  have "multipliedHessian3 this x duals \<noteq> Inl (RuntimeError dimension_error)"
  proof
    assume a: "multipliedHessian3 this x duals = Inl (RuntimeError dimension_error)"
    have nl: "for_loop 0 (length lambda) (loop_body3 lambda G11 G12 G13 G22 G23 G33) s
        \<noteq> Inl (RuntimeError m)" for s m
    proof
      assume "for_loop 0 (length lambda) (loop_body3 lambda G11 G12 G13 G22 G23 G33) s
          = Inl (RuntimeError m)"
      then have "RuntimeError m = VectorIndexOutOfBounds \<or> RuntimeError m = EigenSizeMismatch"
        by (rule for_loop_error[rotated]) (auto dest: loop_body3_error)
      then show False by simp
    qed
    from a assms False nl show False
      by (auto simp: multipliedHessian3_def and_then_def values_at_Some duals_at_Some
          vector_at_def split: if_splits sum.splits prod.splits)
  qed
  with False show ?thesis by simp
qed

lemma multipliedHessian3_returns:
  assumes "E3_active this x" "x (E3_key1 this) = Some x1" "x (E3_key2 this) = Some x2"
    "x (E3_key3 this) = Some x3" "duals (dualKey this) = Some lambda"
    "E3_evaluateHessians this x1 x2 x3 = (G11, G12, G13, G22, G23, G33)"
    and "length G11 = dim lambda" "length G12 = dim lambda" "length G13 = dim lambda"
      "length G22 = dim lambda" "length G23 = dim lambda" "length G33 = dim lambda"
    and "0 < dim lambda"
    and "uniform_shape G11" "uniform_shape G12" "uniform_shape G13"
      "uniform_shape G22" "uniform_shape G23" "uniform_shape G33"
  shows "\<exists>hf. multipliedHessian3 this x duals = Inr (Some hf)
      \<and> hf_keys hf = [E3_key2 this, E3_key2 this, E3_key3 this]"
proof -
  from assms have l: "length G11 = length lambda" "length G12 = length lambda"
    "length G13 = length lambda" "length G22 = length lambda" "length G23 = length lambda"
    "length G33 = length lambda" "0 < length lambda"
    by (simp_all add: dim_def)
  from loop3_ok[OF l(1-6) assms(14-19) same_shape_zeros same_shape_zeros same_shape_zeros
      same_shape_zeros same_shape_zeros same_shape_zeros]
  obtain s' where "for_loop 0 (length lambda) (loop_body3 lambda G11 G12 G13 G22 G23 G33)
      (zeros (rows (hd G11)) (cols (hd G11)), zeros (rows (hd G12)) (cols (hd G12)),
       zeros (rows (hd G13)) (cols (hd G13)), zeros (rows (hd G22)) (cols (hd G22)),
       zeros (rows (hd G23)) (cols (hd G23)), zeros (rows (hd G33)) (cols (hd G33))) = Inr s'"
    by blast
  with assms l show ?thesis
    by (simp add: multipliedHessian3_def and_then_def values_at_Some duals_at_Some vector_at_0
        HessianFactor3_def split: prod.splits)
qed

text \<open>
  C7, as stated, fails. An active one-variable constraint of dimension zero, for which
  \<open>evaluateHessians\<close> returns no block, passes the check and then reads \<open>G11[0]\<close> of an
  empty vector; and blocks of the right number but of different shapes pass the check and
  fail in the sum. In neither case is a factor returned.
\<close>

theorem dimension_check_counterexample:
  "E1_active (sample_constraint1 True []) sample_values
   \<and> length (E1_evaluateHessians (sample_constraint1 True []) ()) = dim ([] :: int Vector)
   \<and> multipliedHessian1 (sample_constraint1 True []) sample_values (sample_duals [])
       = Inl VectorIndexOutOfBounds
   \<and> E1_active (sample_constraint1 True [small_block, large_block]) sample_values
   \<and> length (E1_evaluateHessians (sample_constraint1 True [small_block, large_block]) ())
       = dim [1, 1 :: int]
   \<and> multipliedHessian1 (sample_constraint1 True [small_block, large_block]) sample_values
         (sample_duals [1, 1])
       = Inl EigenSizeMismatch"
  by (simp add: sample_defs eval_defs)

text \<open>
  C7, amended: for an active constraint whose variables and dual are present,
  \<open>multipliedHessian\<close> throws the runtime error of the dimension check if and only if the
  number of blocks in one of the lists returned by \<open>evaluateHessians\<close> differs from the
  dimension of \<open>lambda\<close>; when all the numbers agree, \<open>lambda\<close> has at least one component
  and the blocks of each list have one shape, it returns a Hessian factor.
\<close>

theorem dimension_check:
  "(E1_active c1 x \<and> x (E1_key c1) = Some x1 \<and> duals (dualKey c1) = Some lambda \<longrightarrow>
      (multipliedHessian1 c1 x duals = Inl (RuntimeError dimension_error)
         \<longleftrightarrow> length (E1_evaluateHessians c1 x1) \<noteq> dim lambda)
      \<and> (length (E1_evaluateHessians c1 x1) = dim lambda \<and> 0 < dim lambda
           \<and> uniform_shape (E1_evaluateHessians c1 x1)
           \<longrightarrow> (\<exists>hf. multipliedHessian1 c1 x duals = Inr (Some hf))))
   \<and> (E2_active c2 y \<and> y (E2_key1 c2) = Some y1 \<and> y (E2_key2 c2) = Some y2
        \<and> duals2 (dualKey c2) = Some mu \<and> E2_evaluateHessians c2 y1 y2 = (G11, G12, G22) \<longrightarrow>
      (multipliedHessian2 c2 y duals2 = Inl (RuntimeError dimension_error)
         \<longleftrightarrow> length G11 \<noteq> dim mu \<or> length G12 \<noteq> dim mu \<or> length G22 \<noteq> dim mu)
      \<and> (length G11 = dim mu \<and> length G12 = dim mu \<and> length G22 = dim mu \<and> 0 < dim mu
           \<and> uniform_shape G11 \<and> uniform_shape G12 \<and> uniform_shape G22
           \<longrightarrow> (\<exists>hf. multipliedHessian2 c2 y duals2 = Inr (Some hf))))
   \<and> (E3_active c3 z \<and> z (E3_key1 c3) = Some z1 \<and> z (E3_key2 c3) = Some z2
        \<and> z (E3_key3 c3) = Some z3 \<and> duals3 (dualKey c3) = Some nu
        \<and> E3_evaluateHessians c3 z1 z2 z3 = (H11, H12, H13, H22, H23, H33) \<longrightarrow>
      (multipliedHessian3 c3 z duals3 = Inl (RuntimeError dimension_error)
         \<longleftrightarrow> length H11 \<noteq> dim nu \<or> length H12 \<noteq> dim nu \<or> length H13 \<noteq> dim nu
           \<or> length H22 \<noteq> dim nu \<or> length H23 \<noteq> dim nu \<or> length H33 \<noteq> dim nu)
      \<and> (length H11 = dim nu \<and> length H12 = dim nu \<and> length H13 = dim nu
           \<and> length H22 = dim nu \<and> length H23 = dim nu \<and> length H33 = dim nu \<and> 0 < dim nu
           \<and> uniform_shape H11 \<and> uniform_shape H12 \<and> uniform_shape H13
           \<and> uniform_shape H22 \<and> uniform_shape H23 \<and> uniform_shape H33
           \<longrightarrow> (\<exists>hf. multipliedHessian3 c3 z duals3 = Inr (Some hf))))"
proof (intro conjI impI; (elim conjE)?)
  assume "E1_active c1 x" "x (E1_key c1) = Some x1" "duals (dualKey c1) = Some lambda"
  then show "multipliedHessian1 c1 x duals = Inl (RuntimeError dimension_error)
         \<longleftrightarrow> length (E1_evaluateHessians c1 x1) \<noteq> dim lambda"
    by (rule multipliedHessian1_throws_iff)
next
  assume "E1_active c1 x" "x (E1_key c1) = Some x1" "duals (dualKey c1) = Some lambda"
    "length (E1_evaluateHessians c1 x1) = dim lambda" "0 < dim lambda"
    "uniform_shape (E1_evaluateHessians c1 x1)"
  then show "\<exists>hf. multipliedHessian1 c1 x duals = Inr (Some hf)"
    by (rule multipliedHessian1_returns)
next
  assume "E2_active c2 y" "y (E2_key1 c2) = Some y1" "y (E2_key2 c2) = Some y2"
    "duals2 (dualKey c2) = Some mu" "E2_evaluateHessians c2 y1 y2 = (G11, G12, G22)"
  then show "multipliedHessian2 c2 y duals2 = Inl (RuntimeError dimension_error)
         \<longleftrightarrow> length G11 \<noteq> dim mu \<or> length G12 \<noteq> dim mu \<or> length G22 \<noteq> dim mu"
    by (rule multipliedHessian2_throws_iff)
next
  assume "E2_active c2 y" "y (E2_key1 c2) = Some y1" "y (E2_key2 c2) = Some y2"
    "duals2 (dualKey c2) = Some mu" "E2_evaluateHessians c2 y1 y2 = (G11, G12, G22)"
    "length G11 = dim mu" "length G12 = dim mu" "length G22 = dim mu" "0 < dim mu"
    "uniform_shape G11" "uniform_shape G12" "uniform_shape G22"
  then show "\<exists>hf. multipliedHessian2 c2 y duals2 = Inr (Some hf)"
    by (rule multipliedHessian2_returns)
next
  assume "E3_active c3 z" "z (E3_key1 c3) = Some z1" "z (E3_key2 c3) = Some z2"
    "z (E3_key3 c3) = Some z3" "duals3 (dualKey c3) = Some nu"
    "E3_evaluateHessians c3 z1 z2 z3 = (H11, H12, H13, H22, H23, H33)"
  then show "multipliedHessian3 c3 z duals3 = Inl (RuntimeError dimension_error)
         \<longleftrightarrow> length H11 \<noteq> dim nu \<or> length H12 \<noteq> dim nu \<or> length H13 \<noteq> dim nu
           \<or> length H22 \<noteq> dim nu \<or> length H23 \<noteq> dim nu \<or> length H33 \<noteq> dim nu"
    by (rule multipliedHessian3_throws_iff)
next
  assume "E3_active c3 z" "z (E3_key1 c3) = Some z1" "z (E3_key2 c3) = Some z2"
    "z (E3_key3 c3) = Some z3" "duals3 (dualKey c3) = Some nu"
    "E3_evaluateHessians c3 z1 z2 z3 = (H11, H12, H13, H22, H23, H33)"
    "length H11 = dim nu" "length H12 = dim nu" "length H13 = dim nu"
    "length H22 = dim nu" "length H23 = dim nu" "length H33 = dim nu" "0 < dim nu"
    "uniform_shape H11" "uniform_shape H12" "uniform_shape H13"
    "uniform_shape H22" "uniform_shape H23" "uniform_shape H33"
  then have "\<exists>hf. multipliedHessian3 c3 z duals3 = Inr (Some hf)
      \<and> hf_keys hf = [E3_key2 c3, E3_key2 c3, E3_key3 c3]"
    by (rule multipliedHessian3_returns)
  then show "\<exists>hf. multipliedHessian3 c3 z duals3 = Inr (Some hf)" by blast
qed

theorem dimension_check_witness:
  "multipliedHessian1 (sample_constraint1 True [small_block]) sample_values (sample_duals [1])
     \<noteq> Inl (RuntimeError dimension_error)
   \<and> (\<exists>hf. multipliedHessian1 (sample_constraint1 True [small_block]) sample_values
              (sample_duals [1]) = Inr (Some hf))
   \<and> multipliedHessian2 (sample_constraint2 True [small_block]) sample_values
        (sample_duals [1, 1]) = Inl (RuntimeError dimension_error)
   \<and> (\<exists>hf. multipliedHessian3 (sample_constraint3 True [large_block, large_block]) sample_values
              (sample_duals [1, 3]) = Inr (Some hf))"
proof -
  let ?c1 = "sample_constraint1 True [small_block]"
  let ?c2 = "sample_constraint2 True [small_block]"
  let ?c3 = "sample_constraint3 True [large_block, large_block]"
  let ?L = "[large_block, large_block]"
  note t = dimension_check[of ?c1 sample_values "()" "sample_duals [1]" "[1]"
      ?c2 sample_values "()" "()" "sample_duals [1, 1]" "[1, 1]"
      "[small_block]" "[small_block]" "[small_block]"
      ?c3 sample_values "()" "()" "()" "sample_duals [1, 3]" "[1, 3]" ?L ?L ?L ?L ?L ?L]
  have a1: "E1_active ?c1 sample_values \<and> sample_values (E1_key ?c1) = Some ()
      \<and> sample_duals [1] (dualKey ?c1) = Some [1]"
    by (simp add: sample_defs dualKey_def)
  have b1: "length (E1_evaluateHessians ?c1 ()) = dim [1::int] \<and> 0 < dim [1::int]
      \<and> uniform_shape (E1_evaluateHessians ?c1 ())"
    by (simp add: sample_defs dim_def uniform_shape_def)
  have a2: "E2_active ?c2 sample_values \<and> sample_values (E2_key1 ?c2) = Some ()
      \<and> sample_values (E2_key2 ?c2) = Some () \<and> sample_duals [1, 1] (dualKey ?c2) = Some [1, 1]
      \<and> E2_evaluateHessians ?c2 () () = ([small_block], [small_block], [small_block])"
    by (simp add: sample_defs dualKey_def)
  have b2: "length [small_block] \<noteq> dim [1, 1::int]"
    by (simp add: dim_def)
  have a3: "E3_active ?c3 sample_values \<and> sample_values (E3_key1 ?c3) = Some ()
      \<and> sample_values (E3_key2 ?c3) = Some () \<and> sample_values (E3_key3 ?c3) = Some ()
      \<and> sample_duals [1, 3] (dualKey ?c3) = Some [1, 3]
      \<and> E3_evaluateHessians ?c3 () () () = (?L, ?L, ?L, ?L, ?L, ?L)"
    by (simp add: sample_defs dualKey_def)
  have b3: "length ?L = dim [1, 3::int] \<and> 0 < dim [1, 3::int] \<and> uniform_shape ?L"
    by (simp add: dim_def uniform_shape_def)
  note t1 = t[THEN conjunct1, THEN mp, OF a1]
  note t2 = t[THEN conjunct2, THEN conjunct1, THEN mp, OF a2]
  note t3 = t[THEN conjunct2, THEN conjunct2, THEN mp, OF a3]
  from b1 have e1: "\<not> length (E1_evaluateHessians ?c1 ()) \<noteq> dim [1::int]" by simp
  from b2 have e2: "length [small_block] \<noteq> dim [1, 1::int] \<or> length [small_block] \<noteq> dim [1, 1::int]
      \<or> length [small_block] \<noteq> dim [1, 1::int]" by simp
  have "multipliedHessian1 ?c1 sample_values (sample_duals [1]) \<noteq> Inl (RuntimeError dimension_error)"
    using t1[THEN conjunct1] e1 by (rule ssubst)
  moreover have "\<exists>hf. multipliedHessian1 ?c1 sample_values (sample_duals [1]) = Inr (Some hf)"
    by (rule t1[THEN conjunct2, THEN mp, OF b1])
  moreover have
    "multipliedHessian2 ?c2 sample_values (sample_duals [1, 1]) = Inl (RuntimeError dimension_error)"
    by (rule t2[THEN conjunct1, THEN iffD2, OF e2])
  moreover have
    "\<exists>hf. multipliedHessian3 ?c3 sample_values (sample_duals [1, 3]) = Inr (Some hf)"
  proof (rule t3[THEN conjunct2, THEN mp])
    from b3 show "length ?L = dim [1, 3::int] \<and> length ?L = dim [1, 3::int]
        \<and> length ?L = dim [1, 3::int] \<and> length ?L = dim [1, 3::int]
        \<and> length ?L = dim [1, 3::int] \<and> length ?L = dim [1, 3::int] \<and> 0 < dim [1, 3::int]
        \<and> uniform_shape ?L \<and> uniform_shape ?L \<and> uniform_shape ?L
        \<and> uniform_shape ?L \<and> uniform_shape ?L \<and> uniform_shape ?L"
      by (intro conjI) (erule conjE, (erule conjE)?, assumption)+
  qed
  ultimately show ?thesis by (intro conjI)
qed

text \<open>
  C8 does not hold of the code: on a three-variable constraint with keys \<open>1\<close>, \<open>2\<close> and
  \<open>3\<close>, active and passing the dimension check, the returned factor has the keys \<open>2\<close>,
  \<open>2\<close>, \<open>3\<close>.
\<close>

theorem three_variable_keys:
  "multipliedHessian3 (sample_constraint3 True [small_block]) sample_values (sample_duals [1])
     = Inr (Some \<lparr>hf_keys = [2, 2, 3],
          hf_G = replicate 6 \<lparr>rows = 1, cols = 1, coeffs = [- 2]\<rparr>,
          hf_g = [[0], [0], [0]], hf_f = 0\<rparr>)
   \<and> [E3_key1 (sample_constraint3 True [small_block]),
       E3_key2 (sample_constraint3 True [small_block]),
       E3_key3 (sample_constraint3 True [small_block])] = [1, 2, 3]"
  by (simp add: sample_defs eval_defs numeral_eq_Suc)

text \<open>The keys of the returned factor are not the keys of the three variables in order.\<close>

theorem three_variable_keys_witness:
  "map_sum id (map_option hf_keys)
     (multipliedHessian3 (sample_constraint3 True [small_block]) sample_values (sample_duals [1]))
   = Inr (Some [2, 2, 3])
   \<and> [2, 2, 3] \<noteq> [E3_key1 (sample_constraint3 True [small_block]),
       E3_key2 (sample_constraint3 True [small_block]),
       E3_key3 (sample_constraint3 True [small_block])]"
proof -
  note t = three_variable_keys
  have "[E3_key1 (sample_constraint3 True [small_block]),
       E3_key2 (sample_constraint3 True [small_block]),
       E3_key3 (sample_constraint3 True [small_block])] \<noteq> [2, 2, 3]"
    unfolding t[THEN conjunct2] by simp
  then show ?thesis unfolding t[THEN conjunct1] by simp
qed

text \<open>
  C9: a constraint that is not active at \<open>x\<close> returns the null pointer, whatever
  \<open>evaluateHessians\<close> would compute and whatever the dual values hold, even when the
  variables or the dual are missing from their containers.
\<close>

theorem inactive_returns_null:
  "(\<not> E1_active c1 x \<longrightarrow>
      multipliedHessian1 (c1\<lparr>E1_evaluateHessians := h1\<rparr>) x duals = Inr None)
   \<and> (\<not> E2_active c2 x \<longrightarrow>
      multipliedHessian2 (c2\<lparr>E2_evaluateHessians := h2\<rparr>) x duals = Inr None)
   \<and> (\<not> E3_active c3 x \<longrightarrow>
      multipliedHessian3 (c3\<lparr>E3_evaluateHessians := h3\<rparr>) x duals = Inr None)"
  by (simp add: multipliedHessian1_def multipliedHessian2_def multipliedHessian3_def)

theorem inactive_returns_null_witness:
  "multipliedHessian1 (sample_constraint1 False [small_block]) sample_values Map.empty = Inr None
   \<and> multipliedHessian2 (sample_constraint2 False []) Map.empty (sample_duals [1]) = Inr None
   \<and> multipliedHessian3 (sample_constraint3 False [small_block, large_block]) sample_values
        (sample_duals []) = Inr None"
proof -
  have a: "\<not> E1_active (sample_constraint1 False [small_block]) sample_values"
    "\<not> E2_active (sample_constraint2 False []) Map.empty"
    "\<not> E3_active (sample_constraint3 False [small_block, large_block]) sample_values"
    by (simp_all add: sample_constraint1_def sample_constraint2_def sample_constraint3_def)
  have u: "(sample_constraint1 False [small_block])
        \<lparr>E1_evaluateHessians := E1_evaluateHessians (sample_constraint1 False [small_block])\<rparr>
      = sample_constraint1 False [small_block]"
    "(sample_constraint2 False [])
        \<lparr>E2_evaluateHessians := E2_evaluateHessians (sample_constraint2 False [])\<rparr>
      = sample_constraint2 False []"
    "(sample_constraint3 False [small_block, large_block])
        \<lparr>E3_evaluateHessians := E3_evaluateHessians (sample_constraint3 False [small_block, large_block])\<rparr>
      = sample_constraint3 False [small_block, large_block]"
    by simp_all
  from inactive_returns_null[where ?c1.0 = "sample_constraint1 False [small_block]"
      and x = sample_values and duals = Map.empty
      and ?h1.0 = "E1_evaluateHessians (sample_constraint1 False [small_block])", unfolded u] a
  have 1: "multipliedHessian1 (sample_constraint1 False [small_block]) sample_values Map.empty
      = Inr None" by blast
  from inactive_returns_null[where ?c2.0 = "sample_constraint2 False []"
      and x = Map.empty and duals = "sample_duals [1]"
      and ?h2.0 = "E2_evaluateHessians (sample_constraint2 False [])", unfolded u] a
  have 2: "multipliedHessian2 (sample_constraint2 False []) Map.empty (sample_duals [1])
      = Inr None" by blast
  from inactive_returns_null[where ?c3.0 = "sample_constraint3 False [small_block, large_block]"
      and x = sample_values and duals = "sample_duals []"
      and ?h3.0 = "E3_evaluateHessians (sample_constraint3 False [small_block, large_block])",
      unfolded u] a
  have 3: "multipliedHessian3 (sample_constraint3 False [small_block, large_block]) sample_values
        (sample_duals []) = Inr None" by blast
  from 1 2 3 show ?thesis by simp
qed

text \<open>
  C10: whatever flag \<open>setActive_\<close> has stored, and however often, \<open>isActive_\<close> answers
  true: the stored flag is never read by it.
\<close>

theorem isActive_ignores_setActive:
  "isActive_impl (setActive_impl False this) = True
   \<and> isActive_impl (foldr setActive_impl flags this) = True
   \<and> isActive_impl (this\<lparr>m_active := b\<rparr>) = isActive_impl this"
  by (simp add: isActive_impl_def)

end
